theory Spec2Isabelle
  imports Complex_Main "HOL-Library.Sublist"
begin

section \<open>Python values and floating-point arithmetic\<close>

text \<open>
  The functions of \<^verbatim>\<open>toll_logic.py\<close> are dynamically typed. Where the source inspects
  the type of a value (\<^verbatim>\<open>isinstance\<close>, \<^verbatim>\<open>is None\<close>) or an operation may raise on
  the wrong type, the value is a \<open>pyval\<close>. Python's \<^verbatim>\<open>bool\<close> is a subclass of
  \<^verbatim>\<open>int\<close>, so \<^verbatim>\<open>True\<close> and \<^verbatim>\<open>False\<close> are the integers 1 and 0 of \<open>PyInt\<close>.
\<close>

datatype pyval =
    PyNone
  | PyInt int
  | PyFloat real
  | PyStr string
  | PyTuple "pyval list"
  | PyList "pyval list"

datatype py_exn = TypeError | ValueError | OverflowError

text \<open>
  A finite Python float is modelled by the real number it denotes. An arithmetic
  operation on floats is the exact operation followed by the rounding \<open>fl\<close> of the float
  format to a representable number (binary64, round to nearest, in CPython). The rounding
  is a parameter of the model: nothing is assumed about it except where a theorem says so.
  Infinities and NaN are outside the model, and so is an operation on floats whose result
  overflows to an infinity.

  Converting an int to a float (\<^verbatim>\<open>float(i)\<close>, and \<^verbatim>\<open>i / 1000.0\<close>) raises
  \<^verbatim>\<open>OverflowError\<close> when the int, rounded to 53 bits, no longer fits binary64: from
  \<open>2 ^ 1024 - 2 ^ 970\<close> on, the midpoint between the largest float and \<open>2 ^ 1024\<close>.
\<close>

type_synonym rounding = "real \<Rightarrow> real"

definition int_fits_float :: "int \<Rightarrow> bool" where
  "int_fits_float i = (\<bar>i\<bar> < 2 ^ 1024 - 2 ^ 970)"

definition float_of_int :: "rounding \<Rightarrow> int \<Rightarrow> real" where
  "float_of_int fl i = fl (of_int i)"

definition fmul :: "rounding \<Rightarrow> real \<Rightarrow> real \<Rightarrow> real" where
  "fmul fl x y = fl (x * y)"

definition fdiv :: "rounding \<Rightarrow> real \<Rightarrow> real \<Rightarrow> real" where
  "fdiv fl x y = fl (x / y)"

text \<open>
  \<^verbatim>\<open>round(x, 2)\<close> on a float: CPython rounds the exact value of \<open>x\<close> to two decimal
  places, ties to the even neighbour, and converts that decimal back to a float.
\<close>

definition round_half_even :: "real \<Rightarrow> int" where
  "round_half_even y =
     (let f = \<lfloor>y\<rfloor>; d = y - of_int f
      in if d < 1 / 2 then f
         else if 1 / 2 < d then f + 1
         else if even f then f else f + 1)"

definition py_round2 :: "rounding \<Rightarrow> real \<Rightarrow> real" where
  "py_round2 fl x = fl (of_int (round_half_even (x * 100)) / 100)"

section \<open>Fare calculation\<close>

text \<open>\<^verbatim>\<open>TOLL_RATE_PER_KM = 3.0\<close>; the source tests it against \<^verbatim>\<open>None\<close>.\<close>

definition TOLL_RATE_PER_KM :: "real option" where
  "TOLL_RATE_PER_KM = Some 3"

text \<open>
  \<^verbatim>\<open>calculate_toll(distance_km)\<close>. The comparison \<^verbatim>\<open>distance_km < 0\<close> stands before the
  \<^verbatim>\<open>try\<close>, so its \<^verbatim>\<open>TypeError\<close> on a string or a sequence is not caught.
  \<^verbatim>\<open>float(...)\<close> of a float does not raise; of an int too large for a float it raises
  \<^verbatim>\<open>OverflowError\<close>, which \<^verbatim>\<open>except (ValueError, TypeError)\<close> does not catch.
\<close>

fun calculate_toll :: "rounding \<Rightarrow> pyval \<Rightarrow> py_exn + real" where
  "calculate_toll fl PyNone = Inr 0"
| "calculate_toll fl (PyInt i) =
     (if i < 0 then Inr 0
      else case TOLL_RATE_PER_KM of
             None \<Rightarrow> Inr 0
           | Some rate \<Rightarrow>
               if int_fits_float i then Inr (py_round2 fl (fmul fl (float_of_int fl i) rate))
               else Inl OverflowError)"
| "calculate_toll fl (PyFloat d) =
     (if d < 0 then Inr 0
      else case TOLL_RATE_PER_KM of
             None \<Rightarrow> Inr 0
           | Some rate \<Rightarrow> Inr (py_round2 fl (fmul fl d rate)))"
| "calculate_toll fl (PyStr s) = Inl TypeError"
| "calculate_toll fl (PyTuple xs) = Inl TypeError"
| "calculate_toll fl (PyList xs) = Inl TypeError"

text \<open>The argument the location handler passes: the result of \<^verbatim>\<open>calc_dist\<close>.\<close>

definition py_of_distance :: "real option \<Rightarrow> pyval" where
  "py_of_distance d = (case d of None \<Rightarrow> PyNone | Some x \<Rightarrow> PyFloat x)"

section \<open>Strings\<close>

text \<open>
  \<^verbatim>\<open>str.strip()\<close> removes leading and trailing whitespace. A character of a
  \<open>string\<close> here is a code point below 256, and the whitespace characters are the code
  points below 256 for which \<^verbatim>\<open>str.isspace\<close> holds: \<^verbatim>\<open>\t \n \v \f \r\<close>, the
  separators 0x1C to 0x1F, the space, NEL (0x85) and the no-break space (0xA0). Code
  points from 256 on are outside the alphabet of the model.
\<close>

definition py_isspace :: "char \<Rightarrow> bool" where
  "py_isspace c =
     (let n = (of_char c :: nat)
      in (9 \<le> n \<and> n \<le> 13) \<or> (28 \<le> n \<and> n \<le> 32) \<or> n = 133 \<or> n = 160)"

definition strip :: "string \<Rightarrow> string" where
  "strip s = rev (dropWhile py_isspace (rev (dropWhile py_isspace s)))"

text \<open>\<^verbatim>\<open>needle in haystack\<close> on strings: \<open>needle\<close> occurs as a contiguous block.\<close>

fun py_str_in :: "string \<Rightarrow> string \<Rightarrow> bool" where
  "py_str_in needle [] = (needle = [])"
| "py_str_in needle (c # cs) = (prefix needle (c # cs) \<or> py_str_in needle cs)"

text \<open>Truthiness of an optional string: \<^verbatim>\<open>None\<close> and the empty string are false.\<close>

fun truthy :: "string option \<Rightarrow> bool" where
  "truthy None = False"
| "truthy (Some s) = (s \<noteq> [])"

section \<open>Module state of \<^verbatim>\<open>toll_logic.py\<close>\<close>

text \<open>
  After import the module holds the Google Maps client \<^verbatim>\<open>gmaps\<close> (\<^verbatim>\<open>None\<close> when the
  key is missing or the client could not be built: \<open>gmaps = False\<close>) and the set
  \<^verbatim>\<open>TOLL_ZONE_IDENTIFIERS\<close>, given here as a list in the order in which the set is
  iterated. \<open>float_round\<close> is the rounding of the interpreter's float format.
\<close>

record toll_env =
  gmaps :: bool
  TOLL_ZONE_IDENTIFIERS :: "string list"
  float_round :: rounding

section \<open>Reverse geocoding\<close>

text \<open>
  What \<^verbatim>\<open>gmaps.reverse_geocode((lat, lng))\<close> does is the provider's business; the model
  takes its reply as an input. A result list holds, for each result, the value of
  \<^verbatim>\<open>.get('formatted_address')\<close> (\<open>None\<close> when the key is missing); the other two
  replies are the exceptions the call raises, with their message.
\<close>

datatype geo_reply =
    GeoResults "string option list"
  | GeoApiError string
  | GeoException string

fun reverse_geocode :: "toll_env \<Rightarrow> geo_reply \<Rightarrow> string option \<times> string option" where
  "reverse_geocode env reply =
     (if \<not> gmaps env then (None, Some ''Geocoding Service Unavailable'')
      else case reply of
             GeoResults [] \<Rightarrow> (None, Some ''No address found'')
           | GeoResults (formatted_address # _) \<Rightarrow>
               (if truthy formatted_address
                then (map_option strip formatted_address, None)
                else (None, Some ''Address format error''))
           | GeoApiError e \<Rightarrow> (None, Some (''API Error: '' @ e))
           | GeoException e \<Rightarrow> (None, Some (''Network or Server Error: '' @ e)))"

section \<open>Zone membership\<close>

text \<open>The \<^verbatim>\<open>for zone_id in TOLL_ZONE_IDENTIFIERS\<close> loop with its \<^verbatim>\<open>break\<close>.\<close>

fun partial_match :: "string list \<Rightarrow> string \<Rightarrow> bool" where
  "partial_match [] address = False"
| "partial_match (zone_id # rest) address =
     (if zone_id \<noteq> [] \<and> py_str_in zone_id address then True
      else partial_match rest address)"

definition is_in_toll_zone :: "toll_env \<Rightarrow> geo_reply \<Rightarrow> bool" where
  "is_in_toll_zone env reply =
     (if TOLL_ZONE_IDENTIFIERS env = [] then False
      else case reverse_geocode env reply of (address, error) \<Rightarrow>
        if truthy error then False
        else if \<not> truthy address then False
        else case address of
               None \<Rightarrow> False
             | Some a \<Rightarrow>
                 (let address = strip a;
                      in_zone = (address \<in> set (TOLL_ZONE_IDENTIFIERS env))
                  in if \<not> in_zone then partial_match (TOLL_ZONE_IDENTIFIERS env) address
                     else in_zone))"

section \<open>Driving distance\<close>

text \<open>
  The reply of \<^verbatim>\<open>gmaps.distance_matrix\<close>: a dictionary read with \<^verbatim>\<open>.get\<close> (an absent
  key reads as \<open>None\<close>), or one of the two exceptions. The \<^verbatim>\<open>distance\<close> entry of an
  element is itself a dictionary, kept as an association list because the source tests
  it for emptiness and for the key \<^verbatim>\<open>value\<close>.
\<close>

record dm_element =
  el_status :: "string option"
  el_distance :: "(string \<times> pyval) list option"

record dm_row =
  row_elements :: "dm_element list option"

record dm_matrix =
  dm_status :: "string option"
  dm_rows :: "dm_row list option"

datatype dm_reply =
    DMResult dm_matrix
  | DMApiError string
  | DMException string

text \<open>\<^verbatim>\<open>isinstance(c, (tuple, list)) and len(c) == 2\<close>\<close>

fun is_coord_pair :: "pyval \<Rightarrow> bool" where
  "is_coord_pair (PyTuple xs) = (length xs = 2)"
| "is_coord_pair (PyList xs) = (length xs = 2)"
| "is_coord_pair _ = False"

text \<open>
  The value under \<^verbatim>\<open>distance['value']\<close>, when \<^verbatim>\<open>isinstance(v, (int, float))\<close>, divided
  by \<^verbatim>\<open>1000.0\<close> and rounded. On an int too large for a float the division raises
  \<^verbatim>\<open>OverflowError\<close>, which \<^verbatim>\<open>except Exception\<close> catches: the answer is
  \<^verbatim>\<open>None\<close>, as it is for a value that is neither an int nor a float.
\<close>

fun km_of_meters :: "rounding \<Rightarrow> pyval \<Rightarrow> real option" where
  "km_of_meters fl (PyInt i) =
     (if int_fits_float i then Some (py_round2 fl (fdiv fl (float_of_int fl i) 1000))
      else None)"
| "km_of_meters fl (PyFloat x) = Some (py_round2 fl (fdiv fl x 1000))"
| "km_of_meters fl _ = None"

text \<open>
  \<^verbatim>\<open>distance_matrix['rows'][0]['elements'][0]\<close>, guarded as in the source by
  \<^verbatim>\<open>.get('rows')\<close> and \<^verbatim>\<open>.get('elements')\<close> being non-empty.
\<close>

definition first_element :: "dm_matrix \<Rightarrow> dm_element option" where
  "first_element m =
     (case dm_rows m of
        Some (row # _) \<Rightarrow>
          (case row_elements row of Some (element # _) \<Rightarrow> Some element | _ \<Rightarrow> None)
      | _ \<Rightarrow> None)"

text \<open>
  \<^verbatim>\<open>calc_dist(origin_coords, destination_coords)\<close>. Every exception raised inside the
  \<^verbatim>\<open>try\<close> is caught and answered with \<^verbatim>\<open>None\<close>.
\<close>

definition calc_dist :: "toll_env \<Rightarrow> pyval \<Rightarrow> pyval \<Rightarrow> dm_reply \<Rightarrow> real option" where
  "calc_dist env origin_coords destination_coords reply =
     (if \<not> gmaps env then None
      else if \<not> (is_coord_pair origin_coords \<and> is_coord_pair destination_coords) then None
      else case reply of
             DMApiError e \<Rightarrow> None
           | DMException e \<Rightarrow> None
           | DMResult m \<Rightarrow>
               (case first_element m of
                  None \<Rightarrow> None
                | Some element \<Rightarrow>
                    (if dm_status m = Some ''OK'' \<and> el_status element = Some ''OK'' then
                       (case el_distance element of
                          None \<Rightarrow> None
                        | Some distance_info \<Rightarrow>
                            (if distance_info \<noteq> [] then
                               (case map_of distance_info ''value'' of
                                  None \<Rightarrow> None
                                | Some distance_value_meters \<Rightarrow>
                                    km_of_meters (float_round env) distance_value_meters)
                             else None))
                     else None)))"

section \<open>The table of toll records\<close>

text \<open>
  \<^verbatim>\<open>models.TollRecord\<close>. Nullable columns are options; a timestamp is a number of
  microseconds. The booleans \<^verbatim>\<open>paid\<close> and \<^verbatim>\<open>is_entry_only\<close> are always written by
  the handler or by their column default, so they are plain booleans. The table is the
  list of its rows in insertion order.
\<close>

record TollRecord =
  record_id :: nat
  user_id :: nat
  entry_lat :: "real option"
  entry_lon :: "real option"
  entry_address :: "string option"
  entry_timestamp :: "int option"
  exit_lat :: "real option"
  exit_lon :: "real option"
  exit_address :: "string option"
  exit_timestamp :: "int option"
  distance_km :: "real option"
  amount_due :: "real option"
  paid :: bool
  payment_timestamp :: "int option"
  is_entry_only :: bool

type_synonym table = "TollRecord list"

text \<open>
  \<^verbatim>\<open>order_by(TollRecord.entry_timestamp.desc()).first()\<close>: the row with the latest entry
  timestamp, a \<^verbatim>\<open>NULL\<close> timestamp counting as the earliest (SQLite); among equal
  timestamps the model takes the row inserted first.
\<close>

fun later :: "int option \<Rightarrow> int option \<Rightarrow> bool" where
  "later (Some a) (Some b) = (b < a)"
| "later (Some a) None = True"
| "later None _ = False"

fun most_recent :: "TollRecord \<Rightarrow> table \<Rightarrow> TollRecord" where
  "most_recent best [] = best"
| "most_recent best (r # rs) =
     most_recent (if later (entry_timestamp r) (entry_timestamp best) then r else best) rs"

text \<open>
  \<^verbatim>\<open>get_active_toll_entry(user_id)\<close>. The query can raise (the database is locked or
  unreachable); the source logs the exception and returns \<^verbatim>\<open>None\<close>
  (\<^verbatim>\<open>except Exception\<close>), which its caller cannot tell from a user with no open
  record. Whether the query raises is an input of the model. Commits are taken to succeed.
\<close>

definition open_records :: "nat \<Rightarrow> table \<Rightarrow> table" where
  "open_records uid db = filter (\<lambda>r. user_id r = uid \<and> is_entry_only r) db"

definition get_active_toll_entry :: "bool \<Rightarrow> nat \<Rightarrow> table \<Rightarrow> TollRecord option" where
  "get_active_toll_entry raises uid db =
     (if raises then None
      else case open_records uid db of [] \<Rightarrow> None | r # rs \<Rightarrow> Some (most_recent r rs))"

text \<open>The primary key of an inserted row: one more than the largest key in the table.\<close>

definition next_id :: "table \<Rightarrow> nat" where
  "next_id db = Suc (fold max (map record_id db) 0)"

text \<open>\<^verbatim>\<open>db.session.commit()\<close> after mutating a loaded row: the row with that key is replaced.\<close>

definition db_update :: "TollRecord \<Rightarrow> table \<Rightarrow> table" where
  "db_update r' db = map (\<lambda>r. if record_id r = record_id r' then r' else r) db"

section \<open>The location update handler\<close>

text \<open>
  The JSON body of the request, as far as the handler reads it: each of \<^verbatim>\<open>latitude\<close>
  and \<^verbatim>\<open>longitude\<close> is missing from the body, or present with a value on which
  \<^verbatim>\<open>float(...)\<close> raises, or present with the float it converts to. \<open>data = None\<close> is
  a body that is absent or empty.
\<close>

datatype json_field = Missing | NotANumber | Number real

record body =
  latitude :: json_field
  longitude :: json_field

text \<open>
  One call of the handler: the logged-in user, the body, the server time, the replies
  of the providers to the calls the handler makes (the reverse geocoding inside
  \<^verbatim>\<open>is_in_toll_zone\<close>, the second reverse geocoding for the entry or exit address, and
  the distance matrix), and whether the query for the user's open record raises.
\<close>

record location_update =
  current_user_id :: nat
  data :: "body option"
  utcnow :: int
  zone_geocode :: geo_reply
  address_geocode :: geo_reply
  distance_matrix :: dm_reply
  query_raises :: bool

datatype http_response = Json (status: string) (message: string) (http_code: nat)

text \<open>
  Which arm of the handler ran. The HTTP reply alone does not tell entering, exiting and
  no change apart; the source prints a different line in each arm.
\<close>

datatype outcome =
    BadRequest
  | Entered
  | ExitBlocked
  | Exited TollRecord
  | NoChange
  | InternalError

record handled =
  response :: http_response
  outcome :: outcome
  records :: table

text \<open>\<^verbatim>\<open>address or "Address Unavailable"\<close>\<close>

definition address_or_unavailable :: "string option \<Rightarrow> string" where
  "address_or_unavailable a =
     (case a of None \<Rightarrow> ''Address Unavailable''
      | Some s \<Rightarrow> if s = [] then ''Address Unavailable'' else s)"

definition new_entry :: "table \<Rightarrow> nat \<Rightarrow> real \<Rightarrow> real \<Rightarrow> string option \<Rightarrow> int \<Rightarrow> TollRecord" where
  "new_entry db uid lat lon entry_addr timestamp =
     \<lparr> record_id = next_id db, user_id = uid,
       entry_lat = Some lat, entry_lon = Some lon,
       entry_address = Some (address_or_unavailable entry_addr),
       entry_timestamp = Some timestamp,
       exit_lat = None, exit_lon = None, exit_address = None, exit_timestamp = None,
       distance_km = None, amount_due = None, paid = False, payment_timestamp = None,
       is_entry_only = True \<rparr>"

definition finalize :: "TollRecord \<Rightarrow> real \<Rightarrow> real \<Rightarrow> string option \<Rightarrow> int \<Rightarrow> real option \<Rightarrow> real \<Rightarrow> TollRecord" where
  "finalize active_entry lat lon exit_addr timestamp distance amount =
     active_entry
       \<lparr> exit_lat := Some lat, exit_lon := Some lon,
         exit_address := Some (address_or_unavailable exit_addr),
         exit_timestamp := Some timestamp,
         distance_km := Some (case distance of None \<Rightarrow> 0 | Some d \<Rightarrow> d),
         amount_due := Some amount,
         paid := False,
         is_entry_only := False \<rparr>"

text \<open>
  The body of the handler after the coordinates are parsed. The e-mail that follows the
  commit of a finalized record is sent inside its own \<^verbatim>\<open>try\<close> and changes neither
  the table nor the reply; it is left out. An exception inside the outer \<^verbatim>\<open>try\<close>
  rolls back and answers with status 500.
\<close>

definition process_location :: "toll_env \<Rightarrow> location_update \<Rightarrow> real \<Rightarrow> real \<Rightarrow> table \<Rightarrow> handled" where
  "process_location env req lat lon db =
     (let timestamp = utcnow req;
          current_location_is_toll = is_in_toll_zone env (zone_geocode req);
          active_entry = get_active_toll_entry (query_raises req) (current_user_id req) db;
          processed = Json ''success'' ''Location processed'' 200
      in case (current_location_is_toll, active_entry) of
           (True, None) \<Rightarrow>
             (case reverse_geocode env (address_geocode req) of (entry_addr, geo_error) \<Rightarrow>
                \<lparr> response = processed, outcome = Entered,
                  records = db @ [new_entry db (current_user_id req) lat lon entry_addr timestamp] \<rparr>)
         | (False, Some active) \<Rightarrow>
             (case (entry_lat active, entry_lon active) of
                (Some elat, Some elon) \<Rightarrow>
                  (case reverse_geocode env (address_geocode req) of (exit_addr, geo_error) \<Rightarrow>
                     (let distance = calc_dist env (PyTuple [PyFloat elat, PyFloat elon])
                                       (PyTuple [PyFloat lat, PyFloat lon]) (distance_matrix req)
                      in case calculate_toll (float_round env) (py_of_distance distance) of
                           Inl e \<Rightarrow>
                             \<lparr> response = Json ''error''
                                 ''An internal server error occurred processing the location.'' 500,
                               outcome = InternalError, records = db \<rparr>
                         | Inr amount \<Rightarrow>
                             (let closed = finalize active lat lon exit_addr timestamp distance amount
                              in \<lparr> response = processed, outcome = Exited closed,
                                   records = db_update closed db \<rparr>)))
              | _ \<Rightarrow>
                  \<lparr> response = Json ''success''
                      ''Location processed, but cannot finalize exit due to missing entry data.'' 200,
                    outcome = ExitBlocked, records = db \<rparr>)
         | _ \<Rightarrow> \<lparr> response = processed, outcome = NoChange, records = db \<rparr>)"

definition api_update_location :: "toll_env \<Rightarrow> location_update \<Rightarrow> table \<Rightarrow> handled" where
  "api_update_location env req db =
     (case data req of
        None \<Rightarrow>
          \<lparr> response = Json ''error'' ''Invalid data format'' 400,
            outcome = BadRequest, records = db \<rparr>
      | Some d \<Rightarrow>
          (if latitude d = Missing \<or> longitude d = Missing then
             \<lparr> response = Json ''error'' ''Invalid data format'' 400,
               outcome = BadRequest, records = db \<rparr>
           else case (latitude d, longitude d) of
                  (Number lat, Number lon) \<Rightarrow> process_location env req lat lon db
                | _ \<Rightarrow>
                  \<lparr> response = Json ''error'' ''Invalid latitude/longitude format'' 400,
                    outcome = BadRequest, records = db \<rparr>))"



section \<open>Example data\<close>

text \<open>
  One reference label, exact arithmetic as the float rounding, a user 7 with an open
  record, a location update that geocodes to an address containing the label and one that
  does not, and distance matrix replies with a route of 12340 metres and with no route.
\<close>

definition plaza_env :: toll_env where
  "plaza_env = \<lparr> gmaps = True, TOLL_ZONE_IDENTIFIERS = [''Sunset Plaza''],
                 float_round = (\<lambda>x. x) \<rparr>"

definition open_row :: TollRecord where
  "open_row = \<lparr> record_id = 1, user_id = 7,
       entry_lat = Some 10, entry_lon = Some 20,
       entry_address = Some ''Sunset Plaza, Gate 2'',
       entry_timestamp = Some 1000,
       exit_lat = None, exit_lon = None, exit_address = None, exit_timestamp = None,
       distance_km = None, amount_due = None, paid = False, payment_timestamp = None,
       is_entry_only = True \<rparr>"

definition inside_update :: location_update where
  "inside_update = \<lparr> current_user_id = 7,
       data = Some \<lparr> latitude = Number 10, longitude = Number 20 \<rparr>,
       utcnow = 1000,
       zone_geocode = GeoResults [Some ''Sunset Plaza, Gate 2 ''],
       address_geocode = GeoResults [Some ''Sunset Plaza, Gate 2 ''],
       distance_matrix = DMException ''not called'',
       query_raises = False \<rparr>"

definition route_found :: dm_reply where
  "route_found = DMResult \<lparr> dm_status = Some ''OK'',
       dm_rows = Some [\<lparr> row_elements = Some [\<lparr> el_status = Some ''OK'',
         el_distance = Some [(''text'', PyStr ''12.3 km''), (''value'', PyInt 12340)] \<rparr>] \<rparr>] \<rparr>"


definition outside_update :: location_update where
  "outside_update = \<lparr> current_user_id = 7,
       data = Some \<lparr> latitude = Number (21 / 2), longitude = Number (41 / 2) \<rparr>,
       utcnow = 2000,
       zone_geocode = GeoResults [Some ''Main Street 1''],
       address_geocode = GeoResults [Some ''Main Street 1''],
       distance_matrix = route_found,
       query_raises = False \<rparr>"


definition huge_element :: dm_element where
  "huge_element = \<lparr> el_status = Some ''OK'',
       el_distance = Some [(''value'', PyInt (2 ^ 1024))] \<rparr>"

definition huge_matrix :: dm_matrix where
  "huge_matrix = \<lparr> dm_status = Some ''OK'',
       dm_rows = Some [\<lparr> row_elements = Some [huge_element] \<rparr>] \<rparr>"

section \<open>Rounding is monotone\<close>

lemma round_half_even_bounds:
  "of_int \<lfloor>y\<rfloor> \<le> (of_int (round_half_even y) :: real)"
  "round_half_even y \<le> \<lfloor>y\<rfloor> + 1"
  by (simp_all add: round_half_even_def Let_def)

lemma round_half_even_mono:
  assumes "x \<le> y"
  shows "round_half_even x \<le> round_half_even y"
proof (cases "\<lfloor>x\<rfloor> = \<lfloor>y\<rfloor>")
  case True
  have "x - of_int \<lfloor>y\<rfloor> \<le> y - of_int \<lfloor>y\<rfloor>"
    using assms by simp
  then show ?thesis
    using True by (simp add: round_half_even_def Let_def)
next
  case False
  have "\<lfloor>x\<rfloor> \<le> \<lfloor>y\<rfloor>"
    using assms by (rule floor_mono)
  with False have "\<lfloor>x\<rfloor> + 1 \<le> \<lfloor>y\<rfloor>"
    by simp
  moreover have "round_half_even x \<le> \<lfloor>x\<rfloor> + 1"
    by (rule round_half_even_bounds)
  moreover have "\<lfloor>y\<rfloor> \<le> round_half_even y"
    using round_half_even_bounds(1) [of y] by simp
  ultimately show ?thesis
    by linarith
qed

lemma py_round2_mono:
  assumes "mono fl" and "x \<le> y"
  shows "py_round2 fl x \<le> py_round2 fl y"
proof -
  have "round_half_even (x * 100) \<le> round_half_even (y * 100)"
    using assms(2) by (intro round_half_even_mono) simp
  then have "(of_int (round_half_even (x * 100)) :: real) / 100
               \<le> of_int (round_half_even (y * 100)) / 100"
    by (simp add: divide_right_mono)
  then show ?thesis
    unfolding py_round2_def using assms(1) by (rule monoD [rotated])
qed

section \<open>Strings and zone membership\<close>

lemma py_str_in_iff: "py_str_in needle hay \<longleftrightarrow> (\<exists>ps ss. hay = ps @ needle @ ss)"
proof -
  have "py_str_in needle hay \<longleftrightarrow> sublist needle hay"
    by (induction hay) (simp_all add: sublist_Cons_right)
  then show ?thesis
    by (simp add: sublist_def)
qed

lemma partial_match_iff:
  "partial_match zs a \<longleftrightarrow> (\<exists>z\<in>set zs. z \<noteq> [] \<and> py_str_in z a)"
  by (induction zs) auto

lemma reverse_geocode_cases:
  obtains (ok) a where "reverse_geocode env reply = (Some a, None)"
  | (err) e where "reverse_geocode env reply = (None, Some e)" "e \<noteq> []"
proof (cases "reverse_geocode env reply")
  case (Pair x y)
  then show ?thesis
    using ok err by (cases reply) (auto split: list.splits if_splits option.splits simp del: truthy.simps elim: truthy.elims)
qed

section \<open>The table\<close>

lemma most_recent_mem: "most_recent best rs \<in> set (best # rs)"
  by (induction rs arbitrary: best) (auto split: if_splits)


lemma get_active_no_open:
  "open_records uid db = [] \<Longrightarrow> get_active_toll_entry raises uid db = None"
  by (simp add: get_active_toll_entry_def)

lemma get_active_Some_found:
  "get_active_toll_entry raises uid db = Some a \<Longrightarrow> \<not> raises"
  by (auto simp: get_active_toll_entry_def)

lemma get_active_Some_open:
  assumes "get_active_toll_entry raises uid db = Some a"
  shows "a \<in> set (open_records uid db)"
proof (cases "open_records uid db")
  case Nil
  with assms show ?thesis by (simp add: get_active_toll_entry_def split: if_splits)
next
  case (Cons r rs)
  with assms have "a = most_recent r rs"
    by (simp add: get_active_toll_entry_def split: if_splits)
  then show ?thesis
    using Cons most_recent_mem [of r rs] by simp
qed

lemma get_active_Some_mem:
  assumes "get_active_toll_entry raises uid db = Some a"
  shows "a \<in> set db" and "user_id a = uid" and "is_entry_only a"
  using get_active_Some_open [OF assms] by (simp_all add: open_records_def)


lemma open_records_append:
  "open_records uid (db @ [r]) =
     open_records uid db @ (if user_id r = uid \<and> is_entry_only r then [r] else [])"
  by (simp add: open_records_def)



lemma db_update_member:
  assumes "a \<in> set db" and "record_id c = record_id a"
  shows "c \<in> set (db_update c db)"
    and "\<forall>r\<in>set (db_update c db). record_id r = record_id a \<longrightarrow> r = c"
  using assms by (auto simp: db_update_def)

lemma new_entry_fields:
  "user_id (new_entry db uid lat lon addr ts) = uid"
  "is_entry_only (new_entry db uid lat lon addr ts)"
  by (simp_all add: new_entry_def)

lemma finalize_fields:
  "record_id (finalize a lat lon addr ts d amt) = record_id a"
  "user_id (finalize a lat lon addr ts d amt) = user_id a"
  "\<not> is_entry_only (finalize a lat lon addr ts d amt)"
  by (simp_all add: finalize_def)

lemma address_or_unavailable_cases:
  "\<not> truthy a \<Longrightarrow> address_or_unavailable a = ''Address Unavailable''"
  "a = Some s \<Longrightarrow> s \<noteq> [] \<Longrightarrow> address_or_unavailable a = s"
  by (cases a; simp add: address_or_unavailable_def)+

lemma calculate_toll_distance:
  "\<exists>amount. calculate_toll fl (py_of_distance d) = Inr amount"
  by (cases d) (simp_all add: py_of_distance_def TOLL_RATE_PER_KM_def)

section \<open>The arms of the handler\<close>

lemma process_enter:
  assumes "is_in_toll_zone env (zone_geocode req)"
    and "get_active_toll_entry (query_raises req) (current_user_id req) db = None"
  shows "process_location env req lat lon db =
           \<lparr> response = Json ''success'' ''Location processed'' 200, outcome = Entered,
             records = db @ [new_entry db (current_user_id req) lat lon
                               (fst (reverse_geocode env (address_geocode req))) (utcnow req)] \<rparr>"
  using assms by (simp add: process_location_def Let_def split: prod.splits)




lemma process_exit:
  assumes "\<not> is_in_toll_zone env (zone_geocode req)"
    and "get_active_toll_entry (query_raises req) (current_user_id req) db = Some a"
    and "entry_lat a = Some elat" and "entry_lon a = Some elon"
    and "calculate_toll (float_round env)
           (py_of_distance (calc_dist env (PyTuple [PyFloat elat, PyFloat elon])
              (PyTuple [PyFloat lat, PyFloat lon]) (distance_matrix req))) = Inr amount"
  shows "process_location env req lat lon db =
           (let closed = finalize a lat lon (fst (reverse_geocode env (address_geocode req)))
                           (utcnow req)
                           (calc_dist env (PyTuple [PyFloat elat, PyFloat elon])
                              (PyTuple [PyFloat lat, PyFloat lon]) (distance_matrix req))
                           amount
            in \<lparr> response = Json ''success'' ''Location processed'' 200,
                 outcome = Exited closed, records = db_update closed db \<rparr>)"
  using assms by (simp add: process_location_def Let_def split: prod.splits)

lemma api_valid:
  assumes "data req = Some \<lparr> latitude = Number lat, longitude = Number lon \<rparr>"
  shows "api_update_location env req db = process_location env req lat lon db"
  using assms by (simp add: api_update_location_def)




section \<open>One open record per user\<close>






section \<open>The example data, evaluated\<close>

lemma example_in_zone: "is_in_toll_zone plaza_env (zone_geocode inside_update)"
  by (simp add: plaza_env_def inside_update_def is_in_toll_zone_def strip_def py_isspace_def)

lemma example_not_in_zone: "\<not> is_in_toll_zone plaza_env (zone_geocode outside_update)"
  by (simp add: plaza_env_def outside_update_def is_in_toll_zone_def strip_def py_isspace_def)

lemma example_active: "get_active_toll_entry False 7 [open_row] = Some open_row"
  by (simp add: get_active_toll_entry_def open_records_def open_row_def)


lemma example_route: "calc_dist plaza_env (PyTuple [PyFloat 10, PyFloat 20])
    (PyTuple [PyFloat (21 / 2), PyFloat (41 / 2)]) route_found = Some (1234 / 100)"
  by (simp add: calc_dist_def plaza_env_def route_found_def first_element_def
      py_round2_def fdiv_def float_of_int_def round_half_even_def Let_def int_fits_float_def)


lemma example_data:
  "data outside_update = Some \<lparr> latitude = Number (21 / 2), longitude = Number (41 / 2) \<rparr>"
  by (simp add: outside_update_def)




lemma example_fits: "int_fits_float 12340"
  by (simp add: int_fits_float_def)

lemma example_too_large: "\<not> int_fits_float (2 ^ 1024)"
  by (simp add: int_fits_float_def)

section \<open>The claims\<close>




text \<open>
  C2. \<open>is_in_toll_zone\<close> answers true exactly when reverse geocoding returns a non-empty
  label without error and the trimmed label is a member of the reference set or contains
  a non-empty member as a contiguous substring. With an empty reference set, with a
  geocoding error, or with no label it answers false.
\<close>

theorem is_in_toll_zone_iff:
  "(is_in_toll_zone env reply \<longleftrightarrow>
      (\<exists>L. reverse_geocode env reply = (Some L, None) \<and> L \<noteq> []
         \<and> (strip L \<in> set (TOLL_ZONE_IDENTIFIERS env)
            \<or> (\<exists>z\<in>set (TOLL_ZONE_IDENTIFIERS env). z \<noteq> [] \<and> (\<exists>ps ss. strip L = ps @ z @ ss)))))
   \<and> (TOLL_ZONE_IDENTIFIERS env = [] \<longrightarrow> \<not> is_in_toll_zone env reply)
   \<and> (snd (reverse_geocode env reply) \<noteq> None \<longrightarrow> \<not> is_in_toll_zone env reply)
   \<and> (fst (reverse_geocode env reply) = None \<longrightarrow> \<not> is_in_toll_zone env reply)"
proof (cases rule: reverse_geocode_cases [of env reply])
  case (ok a)
  then show ?thesis
    by (auto simp: is_in_toll_zone_def Let_def partial_match_iff py_str_in_iff)
next
  case (err e)
  then show ?thesis
    by (simp add: is_in_toll_zone_def)
qed

theorem is_in_toll_zone_iff_witness:
  "is_in_toll_zone plaza_env (GeoResults [Some '' Sunset Plaza, Gate 2''])
   \<and> (\<exists>L. reverse_geocode plaza_env (GeoResults [Some '' Sunset Plaza, Gate 2'']) = (Some L, None)
          \<and> L \<noteq> []
          \<and> (\<exists>z\<in>set (TOLL_ZONE_IDENTIFIERS plaza_env). z \<noteq> [] \<and> (\<exists>ps ss. strip L = ps @ z @ ss)))
   \<and> TOLL_ZONE_IDENTIFIERS (plaza_env \<lparr> TOLL_ZONE_IDENTIFIERS := [] \<rparr>) = []
   \<and> \<not> is_in_toll_zone (plaza_env \<lparr> TOLL_ZONE_IDENTIFIERS := [] \<rparr>)
         (GeoResults [Some ''Sunset Plaza''])
   \<and> snd (reverse_geocode plaza_env (GeoApiError ''OVER_QUERY_LIMIT'')) \<noteq> None
   \<and> \<not> is_in_toll_zone plaza_env (GeoApiError ''OVER_QUERY_LIMIT'')
   \<and> fst (reverse_geocode plaza_env (GeoResults [])) = None
   \<and> \<not> is_in_toll_zone plaza_env (GeoResults [])"
proof -
  have yes: "is_in_toll_zone plaza_env (GeoResults [Some '' Sunset Plaza, Gate 2''])"
    by (simp add: plaza_env_def is_in_toll_zone_def strip_def py_isspace_def)
  have geo: "reverse_geocode plaza_env (GeoResults [Some '' Sunset Plaza, Gate 2''])
               = (Some ''Sunset Plaza, Gate 2'', None)"
    by (simp add: plaza_env_def strip_def py_isspace_def)
  have "strip ''Sunset Plaza, Gate 2'' \<notin> set (TOLL_ZONE_IDENTIFIERS plaza_env)"
    by (simp add: plaza_env_def strip_def py_isspace_def)
  then have sub: "\<exists>L. reverse_geocode plaza_env (GeoResults [Some '' Sunset Plaza, Gate 2'']) = (Some L, None)
          \<and> L \<noteq> []
          \<and> (\<exists>z\<in>set (TOLL_ZONE_IDENTIFIERS plaza_env). z \<noteq> [] \<and> (\<exists>ps ss. strip L = ps @ z @ ss))"
    using yes geo
      is_in_toll_zone_iff [of plaza_env "GeoResults [Some '' Sunset Plaza, Gate 2'']"]
    by auto
  have e: "TOLL_ZONE_IDENTIFIERS (plaza_env \<lparr> TOLL_ZONE_IDENTIFIERS := [] \<rparr>) = []"
    by simp
  have a: "snd (reverse_geocode plaza_env (GeoApiError ''OVER_QUERY_LIMIT'')) \<noteq> None"
    by (simp add: plaza_env_def)
  have n: "fst (reverse_geocode plaza_env (GeoResults [])) = None"
    by (simp add: plaza_env_def)
  show ?thesis
    using yes sub e a n
      is_in_toll_zone_iff [of "plaza_env \<lparr> TOLL_ZONE_IDENTIFIERS := [] \<rparr>"
        "GeoResults [Some ''Sunset Plaza'']"]
      is_in_toll_zone_iff [of plaza_env "GeoApiError ''OVER_QUERY_LIMIT''"]
      is_in_toll_zone_iff [of plaza_env "GeoResults []"]
    by blast
qed

text \<open>
  C3. When the user has no open record and the sample is in the zone,
  the handler appends exactly one record: its entry coordinates are the sample's, its
  entry timestamp is the server time of the call, its entry address is the label returned
  by reverse geocoding or \<^verbatim>\<open>Address Unavailable\<close> when no label came back, its exit
  fields, distance and amount are unset, and it is open. The arm taken is the entering
  one.
\<close>

theorem entry_creates_open_record:
  assumes "open_records (current_user_id req) db = []"
    and "is_in_toll_zone env (zone_geocode req)"
    and "data req = Some \<lparr> latitude = Number lat, longitude = Number lon \<rparr>"
  shows "\<exists>r. records (api_update_location env req db) = db @ [r]
    \<and> outcome (api_update_location env req db) = Entered
    \<and> response (api_update_location env req db) = Json ''success'' ''Location processed'' 200
    \<and> open_records (current_user_id req) (records (api_update_location env req db)) = [r]
    \<and> user_id r = current_user_id req
    \<and> entry_lat r = Some lat \<and> entry_lon r = Some lon
    \<and> entry_timestamp r = Some (utcnow req)
    \<and> is_entry_only r \<and> \<not> paid r
    \<and> exit_lat r = None \<and> exit_lon r = None \<and> exit_address r = None
    \<and> exit_timestamp r = None \<and> distance_km r = None \<and> amount_due r = None
    \<and> (\<forall>label. fst (reverse_geocode env (address_geocode req)) = Some label \<and> label \<noteq> []
          \<longrightarrow> entry_address r = Some label)
    \<and> (\<not> truthy (fst (reverse_geocode env (address_geocode req)))
          \<longrightarrow> entry_address r = Some ''Address Unavailable'')"
proof -
  let ?r = "new_entry db (current_user_id req) lat lon
              (fst (reverse_geocode env (address_geocode req))) (utcnow req)"
  have eq: "api_update_location env req db =
           \<lparr> response = Json ''success'' ''Location processed'' 200, outcome = Entered,
             records = db @ [?r] \<rparr>"
    using api_valid [OF assms(3)] process_enter [OF assms(2) get_active_no_open [OF assms(1)]]
    by simp
  note none = assms(1)
  have "open_records (current_user_id req) (db @ [?r]) = [?r]"
    by (simp add: open_records_append none new_entry_fields)
  moreover have "\<forall>label. fst (reverse_geocode env (address_geocode req)) = Some label \<and> label \<noteq> []
          \<longrightarrow> entry_address ?r = Some label"
    by (simp add: new_entry_def address_or_unavailable_cases)
  moreover have "\<not> truthy (fst (reverse_geocode env (address_geocode req)))
          \<longrightarrow> entry_address ?r = Some ''Address Unavailable''"
    by (simp add: new_entry_def address_or_unavailable_cases)
  moreover have "user_id ?r = current_user_id req \<and> entry_lat ?r = Some lat \<and> entry_lon ?r = Some lon
    \<and> entry_timestamp ?r = Some (utcnow req)
    \<and> is_entry_only ?r \<and> \<not> paid ?r
    \<and> exit_lat ?r = None \<and> exit_lon ?r = None \<and> exit_address ?r = None
    \<and> exit_timestamp ?r = None \<and> distance_km ?r = None \<and> amount_due ?r = None"
    by (simp add: new_entry_def)
  ultimately show ?thesis
    unfolding eq by (intro exI [of _ ?r]) simp
qed

theorem entry_creates_open_record_witness:
  "open_records (current_user_id inside_update) [] = []
   \<and> is_in_toll_zone plaza_env (zone_geocode inside_update)
   \<and> data inside_update = Some \<lparr> latitude = Number 10, longitude = Number 20 \<rparr>
   \<and> fst (reverse_geocode plaza_env (address_geocode inside_update))
       = Some ''Sunset Plaza, Gate 2''
   \<and> (\<exists>r. records (api_update_location plaza_env inside_update []) = [r]
          \<and> outcome (api_update_location plaza_env inside_update []) = Entered
          \<and> entry_lat r = Some 10 \<and> entry_lon r = Some 20
          \<and> entry_timestamp r = Some 1000 \<and> is_entry_only r
          \<and> entry_address r = Some ''Sunset Plaza, Gate 2'')
   \<and> \<not> truthy (fst (reverse_geocode plaza_env
         (address_geocode (inside_update \<lparr> address_geocode := GeoException ''timed out'' \<rparr>))))
   \<and> (\<exists>r. records (api_update_location plaza_env
               (inside_update \<lparr> address_geocode := GeoException ''timed out'' \<rparr>) []) = [r]
          \<and> entry_address r = Some ''Address Unavailable'')"
proof -
  let ?late = "inside_update \<lparr> address_geocode := GeoException ''timed out'' \<rparr>"
  have a: "open_records (current_user_id inside_update) [] = []"
    by (simp add: open_records_def)
  have d: "data inside_update = Some \<lparr> latitude = Number 10, longitude = Number 20 \<rparr>"
    by (simp add: inside_update_def)
  have g: "fst (reverse_geocode plaza_env (address_geocode inside_update))
             = Some ''Sunset Plaza, Gate 2''"
    by (simp add: inside_update_def plaza_env_def strip_def py_isspace_def)
  have g': "''Sunset Plaza, Gate 2'' \<noteq> []"
    by simp
  obtain r where r: "records (api_update_location plaza_env inside_update []) = [] @ [r]"
    "outcome (api_update_location plaza_env inside_update []) = Entered"
    "entry_lat r = Some 10" "entry_lon r = Some 20"
    "entry_timestamp r = Some (utcnow inside_update)" "is_entry_only r"
    and label: "\<forall>label. fst (reverse_geocode plaza_env (address_geocode inside_update)) = Some label
                  \<and> label \<noteq> [] \<longrightarrow> entry_address r = Some label"
    using entry_creates_open_record [OF a example_in_zone d] by blast
  from label g g' have addr: "entry_address r = Some ''Sunset Plaza, Gate 2''"
    by blast
  have ts: "utcnow inside_update = 1000"
    by (simp add: inside_update_def)
  have first: "\<exists>r. records (api_update_location plaza_env inside_update []) = [r]
          \<and> outcome (api_update_location plaza_env inside_update []) = Entered
          \<and> entry_lat r = Some 10 \<and> entry_lon r = Some 20
          \<and> entry_timestamp r = Some 1000 \<and> is_entry_only r
          \<and> entry_address r = Some ''Sunset Plaza, Gate 2''"
    using r addr by (intro exI [of _ r]) (simp add: ts)
  have a': "open_records (current_user_id ?late) [] = []"
    by (simp add: open_records_def)
  have z': "is_in_toll_zone plaza_env (zone_geocode ?late)"
    using example_in_zone by simp
  have d': "data ?late = Some \<lparr> latitude = Number 10, longitude = Number 20 \<rparr>"
    using d by simp
  have u: "\<not> truthy (fst (reverse_geocode plaza_env (address_geocode ?late)))"
    by (simp add: plaza_env_def)
  obtain r' where r': "records (api_update_location plaza_env ?late []) = [] @ [r']"
    and sentinel: "\<not> truthy (fst (reverse_geocode plaza_env (address_geocode ?late)))
        \<longrightarrow> entry_address r' = Some ''Address Unavailable''"
    using entry_creates_open_record [OF a' z' d'] by blast
  from sentinel u have "entry_address r' = Some ''Address Unavailable''"
    by blast
  with r' have second: "\<exists>r. records (api_update_location plaza_env ?late []) = [r]
          \<and> entry_address r = Some ''Address Unavailable''"
    by (intro exI [of _ r']) simp
  show ?thesis
    using a example_in_zone d g first u second by blast
qed



text \<open>
  C6. \<open>calc_dist\<close> returns a distance exactly when the client exists, both arguments are
  pairs, the reply has overall status \<^verbatim>\<open>OK\<close>, the first element of its first row has
  status \<^verbatim>\<open>OK\<close> and carries a distance whose \<^verbatim>\<open>value\<close> is a float or an int that
  converts to a float; the distance returned is then that value divided by 1000.0 and
  rounded to two decimals. A missing client, a malformed pair and an exception raised by
  the provider call give no distance.
\<close>

theorem calc_dist_success_iff:
  "(calc_dist env origin_coords destination_coords reply = Some km \<longleftrightarrow>
      gmaps env \<and> is_coord_pair origin_coords \<and> is_coord_pair destination_coords
      \<and> (\<exists>m element distance_info v.
            reply = DMResult m \<and> dm_status m = Some ''OK''
            \<and> first_element m = Some element \<and> el_status element = Some ''OK''
            \<and> el_distance element = Some distance_info
            \<and> map_of distance_info ''value'' = Some v
            \<and> ((\<exists>i. v = PyInt i \<and> int_fits_float i
                     \<and> km = py_round2 (float_round env)
                              (fdiv (float_round env) (float_of_int (float_round env) i) 1000))
               \<or> (\<exists>x. v = PyFloat x
                     \<and> km = py_round2 (float_round env) (fdiv (float_round env) x 1000)))))
   \<and> (\<not> gmaps env \<or> \<not> is_coord_pair origin_coords \<or> \<not> is_coord_pair destination_coords
        \<or> reply = DMApiError e \<or> reply = DMException e
       \<longrightarrow> calc_dist env origin_coords destination_coords reply = None)"
proof -
  have km: "km_of_meters fl v = Some km \<longleftrightarrow>
      (\<exists>i. v = PyInt i \<and> int_fits_float i
            \<and> km = py_round2 fl (fdiv fl (float_of_int fl i) 1000))
      \<or> (\<exists>x. v = PyFloat x \<and> km = py_round2 fl (fdiv fl x 1000))" for fl v
    by (cases v) auto
  have "calc_dist env origin_coords destination_coords reply = Some km \<longleftrightarrow>
      gmaps env \<and> is_coord_pair origin_coords \<and> is_coord_pair destination_coords
      \<and> (\<exists>m element distance_info v.
            reply = DMResult m \<and> dm_status m = Some ''OK''
            \<and> first_element m = Some element \<and> el_status element = Some ''OK''
            \<and> el_distance element = Some distance_info
            \<and> map_of distance_info ''value'' = Some v
            \<and> ((\<exists>i. v = PyInt i \<and> int_fits_float i
                     \<and> km = py_round2 (float_round env)
                              (fdiv (float_round env) (float_of_int (float_round env) i) 1000))
               \<or> (\<exists>x. v = PyFloat x
                     \<and> km = py_round2 (float_round env) (fdiv (float_round env) x 1000))))"
    by (cases reply) (auto simp: calc_dist_def km split: option.splits)
  moreover have "\<not> gmaps env \<or> \<not> is_coord_pair origin_coords \<or> \<not> is_coord_pair destination_coords
        \<or> reply = DMApiError e \<or> reply = DMException e
       \<longrightarrow> calc_dist env origin_coords destination_coords reply = None"
    by (auto simp: calc_dist_def)
  ultimately show ?thesis
    by blast
qed

theorem calc_dist_success_iff_witness:
  "int_fits_float 12340
   \<and> calc_dist plaza_env (PyTuple [PyFloat 10, PyFloat 20])
     (PyTuple [PyFloat (21 / 2), PyFloat (41 / 2)]) route_found = Some (1234 / 100)
   \<and> \<not> is_coord_pair (PyTuple [PyFloat 10])
   \<and> calc_dist plaza_env (PyTuple [PyFloat 10]) (PyTuple [PyFloat (21 / 2), PyFloat (41 / 2)])
        route_found = None
   \<and> calc_dist plaza_env (PyTuple [PyFloat 10, PyFloat 20])
        (PyTuple [PyFloat (21 / 2), PyFloat (41 / 2)]) (DMApiError ''REQUEST_DENIED'') = None"
proof -
  let ?m = "\<lparr> dm_status = Some ''OK'',
       dm_rows = Some [\<lparr> row_elements = Some [\<lparr> el_status = Some ''OK'',
         el_distance = Some [(''text'', PyStr ''12.3 km''), (''value'', PyInt 12340)] \<rparr>] \<rparr>] \<rparr>"
  let ?element = "\<lparr> el_status = Some ''OK'',
         el_distance = Some [(''text'', PyStr ''12.3 km''), (''value'', PyInt 12340)] \<rparr>"
  have km: "1234 / 100 = py_round2 (float_round plaza_env)
              (fdiv (float_round plaza_env) (float_of_int (float_round plaza_env) 12340) 1000)"
    by (simp add: plaza_env_def py_round2_def fdiv_def float_of_int_def round_half_even_def Let_def)
  have shape: "route_found = DMResult ?m \<and> dm_status ?m = Some ''OK''
         \<and> first_element ?m = Some ?element \<and> el_status ?element = Some ''OK''
         \<and> el_distance ?element = Some [(''text'', PyStr ''12.3 km''), (''value'', PyInt 12340)]
         \<and> map_of [(''text'', PyStr ''12.3 km''), (''value'', PyInt 12340)] ''value''
             = Some (PyInt 12340)"
    by (simp add: route_found_def first_element_def)
  have pair: "gmaps plaza_env \<and> is_coord_pair (PyTuple [PyFloat 10, PyFloat 20])
              \<and> is_coord_pair (PyTuple [PyFloat (21 / 2), PyFloat (41 / 2)])"
    by (simp add: plaza_env_def)
  have short: "\<not> is_coord_pair (PyTuple [PyFloat 10])"
    by simp
  have found: "calc_dist plaza_env (PyTuple [PyFloat 10, PyFloat 20])
     (PyTuple [PyFloat (21 / 2), PyFloat (41 / 2)]) route_found = Some (1234 / 100)"
    apply (rule iffD2 [OF conjunct1 [OF calc_dist_success_iff]])
    using shape km pair example_fits by blast
  have bad: "calc_dist plaza_env (PyTuple [PyFloat 10])
     (PyTuple [PyFloat (21 / 2), PyFloat (41 / 2)]) route_found = None"
    using short conjunct2 [OF calc_dist_success_iff, of plaza_env "PyTuple [PyFloat 10]"] by blast
  have denied: "calc_dist plaza_env (PyTuple [PyFloat 10, PyFloat 20])
        (PyTuple [PyFloat (21 / 2), PyFloat (41 / 2)]) (DMApiError ''REQUEST_DENIED'') = None"
    using conjunct2 [OF calc_dist_success_iff, of plaza_env _ _ "DMApiError ''REQUEST_DENIED''"
        "''REQUEST_DENIED''"] by blast
  show ?thesis
    using example_fits found short bad denied by blast
qed

text \<open>
  The claim as written, for every int, fails: a reply that meets every condition listed
  but whose \<^verbatim>\<open>value\<close> is an int too large for a float makes the division raise
  \<^verbatim>\<open>OverflowError\<close>, which \<open>calc_dist\<close> catches, and no distance is returned.
\<close>

theorem calc_dist_huge_value_counterexample:
  "gmaps plaza_env
   \<and> is_coord_pair (PyTuple [PyFloat 10, PyFloat 20])
   \<and> is_coord_pair (PyTuple [PyFloat (21 / 2), PyFloat (41 / 2)])
   \<and> dm_status huge_matrix = Some ''OK''
   \<and> first_element huge_matrix = Some huge_element
   \<and> el_status huge_element = Some ''OK''
   \<and> el_distance huge_element = Some [(''value'', PyInt (2 ^ 1024))]
   \<and> map_of [(''value'', PyInt (2 ^ 1024))] ''value'' = Some (PyInt (2 ^ 1024))
   \<and> calc_dist plaza_env (PyTuple [PyFloat 10, PyFloat 20])
        (PyTuple [PyFloat (21 / 2), PyFloat (41 / 2)]) (DMResult huge_matrix) = None"
proof -
  have shape: "dm_status huge_matrix = Some ''OK''
     \<and> first_element huge_matrix = Some huge_element
     \<and> el_status huge_element = Some ''OK''
     \<and> el_distance huge_element = Some [(''value'', PyInt (2 ^ 1024))]"
    by (simp add: huge_matrix_def huge_element_def first_element_def)
  have km: "km_of_meters (float_round plaza_env) (PyInt (2 ^ 1024)) = None"
    using example_too_large by simp
  have "calc_dist plaza_env (PyTuple [PyFloat 10, PyFloat 20])
        (PyTuple [PyFloat (21 / 2), PyFloat (41 / 2)]) (DMResult huge_matrix) = None"
    using shape km by (simp add: calc_dist_def plaza_env_def)
  then show ?thesis
    using shape by (simp add: plaza_env_def)
qed

text \<open>
  C7. \<open>calculate_toll\<close> returns a number, without raising, on every argument that is
  \<^verbatim>\<open>None\<close> or a float: 0.0 for \<^verbatim>\<open>None\<close> and for a negative distance, and for a
  distance \<open>d \<ge> 0\<close> the product of \<open>d\<close> and the rate, rounded to two decimals, where the
  rate \<^verbatim>\<open>TOLL_RATE_PER_KM\<close> is 3.0.
\<close>

theorem calculate_toll_total:
  "TOLL_RATE_PER_KM = Some 3
   \<and> calculate_toll fl PyNone = Inr 0
   \<and> (d < 0 \<longrightarrow> calculate_toll fl (PyFloat d) = Inr 0)
   \<and> (0 \<le> d \<longrightarrow> calculate_toll fl (PyFloat d) = Inr (py_round2 fl (fmul fl d 3)))
   \<and> (\<exists>amount. calculate_toll fl (py_of_distance distance) = Inr amount)"
  by (cases distance) (simp_all add: TOLL_RATE_PER_KM_def py_of_distance_def)

theorem calculate_toll_total_witness:
  "(0::real) \<le> 1234 / 100
   \<and> calculate_toll (\<lambda>x. x) (PyFloat (1234 / 100)) = Inr (3702 / 100)
   \<and> (- 5 :: real) < 0
   \<and> calculate_toll (\<lambda>x. x) (PyFloat (- 5)) = Inr 0"
  using calculate_toll_total [of "\<lambda>x. x" "1234 / 100"] calculate_toll_total [of "\<lambda>x. x" "- 5"]
  by (simp add: py_round2_def fmul_def round_half_even_def Let_def)

text \<open>
  C8. The fare is monotone in the distance: for \<open>0 \<le> d1 < d2\<close> the fare of \<open>d1\<close> is at
  most the fare of \<open>d2\<close>, whatever the float format rounds to, as long as its rounding is
  monotone (round to nearest is). The fare of \<open>-5\<close> and the fare of \<^verbatim>\<open>None\<close> are 0.0.
\<close>

theorem calculate_toll_monotone:
  assumes "mono fl" and "0 \<le> d1" and "d1 < d2"
  shows "(\<exists>a1 a2. calculate_toll fl (PyFloat d1) = Inr a1
                \<and> calculate_toll fl (PyFloat d2) = Inr a2 \<and> a1 \<le> a2)
    \<and> calculate_toll fl (PyFloat (- 5)) = Inr 0
    \<and> calculate_toll fl (PyInt (- 5)) = Inr 0
    \<and> calculate_toll fl PyNone = Inr 0"
proof -
  have "d1 * 3 \<le> d2 * 3"
    using assms(3) by simp
  then have "fmul fl d1 3 \<le> fmul fl d2 3"
    unfolding fmul_def using assms(1) by (simp add: monoD)
  then have "py_round2 fl (fmul fl d1 3) \<le> py_round2 fl (fmul fl d2 3)"
    using assms(1) by (simp add: py_round2_mono)
  then show ?thesis
    using assms(2,3) by (simp add: TOLL_RATE_PER_KM_def)
qed

theorem calculate_toll_monotone_witness:
  "mono (\<lambda>x::real. x) \<and> (0::real) \<le> 1 / 8 \<and> (1 / 8 :: real) < 1234 / 100
   \<and> calculate_toll (\<lambda>x. x) (PyFloat (1 / 8)) = Inr (38 / 100)
   \<and> calculate_toll (\<lambda>x. x) (PyFloat (1234 / 100)) = Inr (3702 / 100)
   \<and> (\<exists>a1 a2. calculate_toll (\<lambda>x. x) (PyFloat (1 / 8)) = Inr a1
                \<and> calculate_toll (\<lambda>x. x) (PyFloat (1234 / 100)) = Inr a2 \<and> a1 \<le> a2)"
proof -
  have m: "mono (\<lambda>x::real. x)" by (simp add: mono_def)
  have a: "(0::real) \<le> 1 / 8" and b: "(1 / 8 :: real) < 1234 / 100" by simp_all
  show ?thesis
    using m a b calculate_toll_monotone [OF m a b]
    by (simp add: TOLL_RATE_PER_KM_def py_round2_def fmul_def round_half_even_def Let_def)
qed




text \<open>
  C10. When the user's open record has both entry coordinates, the sample is not in the
  zone and the reverse geocoding of the exit point gives no label (an error, or an empty
  label), the exit is finalized all the same: the record is closed with exit address
  \<^verbatim>\<open>Address Unavailable\<close>, exit coordinates and exit timestamp from the sample, the
  distance \<open>calc_dist\<close> returned (0.0 when it returned none) and the amount
  \<open>calculate_toll\<close> computed from it.
\<close>

theorem exit_completes_without_exit_address:
  assumes "get_active_toll_entry (query_raises req) (current_user_id req) db = Some a"
    and "entry_lat a = Some elat" and "entry_lon a = Some elon"
    and "\<not> is_in_toll_zone env (zone_geocode req)"
    and "data req = Some \<lparr> latitude = Number lat, longitude = Number lon \<rparr>"
    and "\<not> truthy (fst (reverse_geocode env (address_geocode req)))"
  shows "\<exists>final amount. outcome (api_update_location env req db) = Exited final
    \<and> response (api_update_location env req db) = Json ''success'' ''Location processed'' 200
    \<and> exit_address final = Some ''Address Unavailable''
    \<and> exit_lat final = Some lat \<and> exit_lon final = Some lon
    \<and> exit_timestamp final = Some (utcnow req)
    \<and> distance_km final =
         Some (case calc_dist env (PyTuple [PyFloat elat, PyFloat elon])
                      (PyTuple [PyFloat lat, PyFloat lon]) (distance_matrix req)
               of None \<Rightarrow> 0 | Some d \<Rightarrow> d)
    \<and> calculate_toll (float_round env)
         (py_of_distance (calc_dist env (PyTuple [PyFloat elat, PyFloat elon])
            (PyTuple [PyFloat lat, PyFloat lon]) (distance_matrix req))) = Inr amount
    \<and> amount_due final = Some amount
    \<and> \<not> is_entry_only final \<and> \<not> paid final
    \<and> record_id final = record_id a
    \<and> final \<in> set (records (api_update_location env req db))
    \<and> (\<forall>r\<in>set (records (api_update_location env req db)).
          record_id r = record_id a \<longrightarrow> r = final)"
proof -
  let ?d = "calc_dist env (PyTuple [PyFloat elat, PyFloat elon])
              (PyTuple [PyFloat lat, PyFloat lon]) (distance_matrix req)"
  obtain amount where toll: "calculate_toll (float_round env) (py_of_distance ?d) = Inr amount"
    using calculate_toll_distance by blast
  let ?final = "finalize a lat lon (fst (reverse_geocode env (address_geocode req)))
                  (utcnow req) ?d amount"
  have eq: "api_update_location env req db =
      \<lparr> response = Json ''success'' ''Location processed'' 200,
        outcome = Exited ?final, records = db_update ?final db \<rparr>"
    using api_valid [OF assms(5)] process_exit [OF assms(4,1,2,3) toll]
    by (simp add: Let_def)
  have mem: "a \<in> set db"
    using assms(1) by (rule get_active_Some_mem)
  have id: "record_id ?final = record_id a"
    by (rule finalize_fields)
  have "exit_address ?final = Some ''Address Unavailable''"
    using assms(6) by (simp add: finalize_def address_or_unavailable_cases)
  moreover have "exit_lat ?final = Some lat \<and> exit_lon ?final = Some lon
    \<and> exit_timestamp ?final = Some (utcnow req)
    \<and> distance_km ?final = Some (case ?d of None \<Rightarrow> 0 | Some d \<Rightarrow> d)
    \<and> amount_due ?final = Some amount \<and> \<not> is_entry_only ?final \<and> \<not> paid ?final"
    by (simp add: finalize_def)
  ultimately show ?thesis
    unfolding eq using db_update_member [OF mem id] id toll
    by (intro exI [of _ ?final] exI [of _ amount]) simp
qed
theorem exit_completes_without_exit_address_witness:
  "\<not> truthy (fst (reverse_geocode plaza_env
                   (address_geocode (outside_update \<lparr> address_geocode := GeoResults [] \<rparr>))))
   \<and> (\<exists>final. outcome (api_update_location plaza_env
                   (outside_update \<lparr> address_geocode := GeoResults [] \<rparr>) [open_row]) = Exited final
          \<and> exit_address final = Some ''Address Unavailable''
          \<and> exit_lat final = Some (21 / 2) \<and> exit_lon final = Some (41 / 2)
          \<and> exit_timestamp final = Some 2000
          \<and> distance_km final = Some (1234 / 100)
          \<and> amount_due final = Some (3702 / 100)
          \<and> \<not> is_entry_only final)"
proof -
  let ?req = "outside_update \<lparr> address_geocode := GeoResults [] \<rparr>"
  let ?d = "calc_dist plaza_env (PyTuple [PyFloat 10, PyFloat 20])
              (PyTuple [PyFloat (21 / 2), PyFloat (41 / 2)]) (distance_matrix ?req)"
  have a: "get_active_toll_entry (query_raises ?req) (current_user_id ?req) [open_row] = Some open_row"
    by (simp add: outside_update_def example_active)
  have lat: "entry_lat open_row = Some 10" and lon: "entry_lon open_row = Some 20"
    by (simp_all add: open_row_def)
  have z: "\<not> is_in_toll_zone plaza_env (zone_geocode ?req)"
    using example_not_in_zone by simp
  have d: "data ?req = Some \<lparr> latitude = Number (21 / 2), longitude = Number (41 / 2) \<rparr>"
    by (simp add: example_data)
  have g: "\<not> truthy (fst (reverse_geocode plaza_env (address_geocode ?req)))"
    by (simp add: plaza_env_def)
  have ts: "utcnow ?req = 2000"
    by (simp add: outside_update_def)
  have route: "?d = Some (1234 / 100)"
    by (simp add: outside_update_def example_route)
  have toll: "calculate_toll (float_round plaza_env) (py_of_distance (Some (1234 / 100)))
                = Inr (3702 / 100)"
    by (simp add: plaza_env_def py_of_distance_def TOLL_RATE_PER_KM_def py_round2_def fmul_def
        round_half_even_def Let_def)
  obtain final amount where out: "outcome (api_update_location plaza_env ?req [open_row]) = Exited final"
    and addr: "exit_address final = Some ''Address Unavailable''"
    and pos: "exit_lat final = Some (21 / 2)" "exit_lon final = Some (41 / 2)"
    and time: "exit_timestamp final = Some (utcnow ?req)"
    and dist: "distance_km final = Some (case ?d of None \<Rightarrow> 0 | Some x \<Rightarrow> x)"
    and fare: "calculate_toll (float_round plaza_env) (py_of_distance ?d) = Inr amount"
    and due: "amount_due final = Some amount"
    and shut: "\<not> is_entry_only final"
    using exit_completes_without_exit_address [OF a lat lon z d g] by blast
  from fare toll have "amount = 3702 / 100"
    by (simp only: route sum.inject)
  with due have due': "amount_due final = Some (3702 / 100)"
    by simp
  from dist have dist': "distance_km final = Some (1234 / 100)"
    by (simp only: route option.case)
  from time have time': "exit_timestamp final = Some 2000"
    by (simp only: ts)
  show ?thesis
    using g out addr pos time' dist' due' shut by blast
qed

end
